theory Spec2Isabelle
  imports Complex_Main
begin

section \<open>Python and TensorFlow values\<close>

text \<open>
  The layers of \<^verbatim>\<open>mlable/tensorflow/layers.py\<close> are Python 3 classes (the signatures carry
  annotations) over TensorFlow tensors. An exception raised by Python or by TensorFlow is
  a value of the type \<open>error\<close>; a computation that can raise returns \<open>error + 'a\<close>, with
  \<open>Inl\<close> for the exception.
\<close>

datatype error =
    TypeError
  | NameError
  | ValueError
  | IndexError
  | ZeroDivisionError
  | InvalidArgumentError

definition bind :: "error + 'a \<Rightarrow> ('a \<Rightarrow> error + 'b) \<Rightarrow> error + 'b" where
  "bind m f = (case m of Inl e \<Rightarrow> Inl e | Inr a \<Rightarrow> f a)"

text \<open>
  A dense tensor is its static shape and its elements in row-major order, the order that
  \<^verbatim>\<open>tf.reshape\<close> keeps. The element type is left open: the reshaping layers never look at
  an element.
\<close>

record 'a tensor =
  shape :: "nat list"
  elems :: "'a list"

text \<open>
  TensorFlow holds every size and every number of elements in a signed 64-bit integer.
  A shape is built one size at a time, and the number of elements so far times the next
  size must not pass \<open>2^63 - 1\<close>; a size of zero brings the number of elements to zero, so
  the sizes after it cannot overflow. \<open>tf_num_elements\<close> is that computation, started
  at one; where it overflows the reshape kernel raises \<^verbatim>\<open>InvalidArgumentError\<close>
  ("Shape [...] has too many elements").
\<close>

definition int64_max :: nat where
  "int64_max = 9223372036854775807"

fun tf_num_elements :: "nat \<Rightarrow> nat list \<Rightarrow> error + nat" where
  "tf_num_elements acc [] = Inr acc"
| "tf_num_elements acc (d # ds) =
     (if int64_max < acc * d then Inl InvalidArgumentError
      else tf_num_elements (acc * d) ds)"

text \<open>
  The shapes a tensor can have, and the invariant of a tensor.
\<close>

definition tf_shape_ok :: "nat list \<Rightarrow> bool" where
  "tf_shape_ok s =
     (list_all (\<lambda>d. d \<le> int64_max) s \<and> tf_num_elements 1 s = Inr (prod_list s))"

definition wf_tensor :: "'a tensor \<Rightarrow> bool" where
  "wf_tensor t = (tf_shape_ok (shape t) \<and> length (elems t) = prod_list (shape t))"

text \<open>
  \<^verbatim>\<open>tf.reshape(tensor, shape)\<close> for a target given as a Python list of non-negative
  integers. The list is first converted to an integer tensor: a size that does not fit
  a signed 64-bit integer raises \<^verbatim>\<open>ValueError\<close>. The kernel then counts the elements of
  the target, which can overflow, and compares the count with the number of elements of
  the input; it raises \<^verbatim>\<open>InvalidArgumentError\<close> when they differ. Otherwise the elements
  stay in place and the shape is replaced. The inferred size \<^verbatim>\<open>-1\<close> is not part of this
  model: shapes are lists of naturals.
\<close>

definition tf_reshape :: "'a tensor \<Rightarrow> nat list \<Rightarrow> error + 'a tensor" where
  "tf_reshape t s =
     (if \<not> list_all (\<lambda>d. d \<le> int64_max) s then Inl ValueError
      else case tf_num_elements 1 s of
             Inl e \<Rightarrow> Inl e
           | Inr k \<Rightarrow>
               if k = prod_list (shape t) then Inr (t\<lparr>shape := s\<rparr>)
               else Inl InvalidArgumentError)"

section \<open>Reshaping layers\<close>

text \<open>
  \<^verbatim>\<open>
  class Merge(tf.keras.layers.Layer):
      def __init__(self, axis: int, n: int, **kwargs):
          self._axis = axis
          self._n = n

      def call(self, inputs: tf.Tensor, **kwargs):
          __shape = list(inputs.shape)
          __axis0 = self._axis % len(__shape)
          __axis1 = (self._axis + 1) % len(__shape)
          # merge n rows along the given axis
          __shape[__axis0] = inputs.shape[__axis0] // self._n
          __shape[__axis1] = inputs.shape[__axis1] * self._n
          return tf.reshape(inputs, __shape) # tf.squeeze
  \<close>
  The axis is a Python integer, possibly negative; \<open>mod\<close> on \<open>int\<close> is Python's \<^verbatim>\<open>%\<close> for
  a positive modulus, and \<^verbatim>\<open>% 0\<close> raises. The factor is a count of rows, a natural number
  (a negative factor, which would ask \<^verbatim>\<open>tf.reshape\<close> for negative sizes, is not modelled);
  \<^verbatim>\<open>// 0\<close> raises. Both assignments read the shape of the input, not the list being
  updated, so the second one wins when the two axes are the same.
\<close>

record merge =
  merge_axis :: int
  merge_n :: nat

definition Merge_init :: "int \<Rightarrow> nat \<Rightarrow> merge" where
  "Merge_init axis n = \<lparr>merge_axis = axis, merge_n = n\<rparr>"

definition Merge_call :: "merge \<Rightarrow> 'a tensor \<Rightarrow> error + 'a tensor" where
  "Merge_call self inputs =
     (let s = shape inputs in
      if length s = 0 then Inl ZeroDivisionError
      else
        let axis0 = nat (merge_axis self mod int (length s));
            axis1 = nat ((merge_axis self + 1) mod int (length s))
        in if merge_n self = 0 then Inl ZeroDivisionError
           else
             let s1 = s[axis0 := (shape inputs ! axis0) div merge_n self];
                 s2 = s1[axis1 := (shape inputs ! axis1) * merge_n self]
             in tf_reshape inputs s2)"

text \<open>
  \<^verbatim>\<open>
  class Reshape(tf.keras.layers.Layer):
      def __init__(self, target_shape: tuple, **kwargs):
          self._shape = target_shape

      def call(self, inputs: tf.Tensor, **kwargs):
          return tf.reshape(inputs, self._shape)
  \<close>
\<close>

record reshape =
  reshape_shape :: "nat list"

definition Reshape_init :: "nat list \<Rightarrow> reshape" where
  "Reshape_init target_shape = \<lparr>reshape_shape = target_shape\<rparr>"

definition Reshape_call :: "reshape \<Rightarrow> 'a tensor \<Rightarrow> error + 'a tensor" where
  "Reshape_call self inputs = tf_reshape inputs (reshape_shape self)"

text \<open>
  The specification's "corresponding split with the same factor": the target shape that
  undoes a merge of factor \<open>n\<close> along \<open>axis\<close>, read off the merged shape. The merge axis gets
  its \<open>n\<close> rows back and the neighbouring axis gives them up.
\<close>

definition split_shape :: "int \<Rightarrow> nat \<Rightarrow> nat list \<Rightarrow> nat list" where
  "split_shape axis n s =
     (let axis0 = nat (axis mod int (length s));
          axis1 = nat ((axis + 1) mod int (length s))
      in s[axis0 := (s ! axis0) * n, axis1 := (s ! axis1) div n])"

text \<open>
  The list that \<^verbatim>\<open>Merge.call\<close> hands to \<^verbatim>\<open>tf.reshape\<close>, as a function of the shape of the
  input: the specification's \<open>[..., A/n, B\<cdot>n]\<close>.
\<close>

definition merged_shape :: "int \<Rightarrow> nat \<Rightarrow> nat list \<Rightarrow> nat list" where
  "merged_shape axis n s =
     (let axis0 = nat (axis mod int (length s));
          axis1 = nat ((axis + 1) mod int (length s))
      in s[axis0 := (s ! axis0) div n, axis1 := (s ! axis1) * n])"

section \<open>Python semantics used by the layers\<close>

text \<open>
  Three pieces of Python 3 decide what the constructors and the \<^verbatim>\<open>call\<close> methods do
  before any tensor is computed: \<^verbatim>\<open>super(type, obj)\<close>, item assignment on a sequence, and
  the lookup of a name.

  \<^verbatim>\<open>super(type, obj)\<close> needs \<open>obj\<close> to be an instance of \<open>type\<close>, that is, \<open>type\<close> has to
  occur in the method resolution order of the class of \<open>obj\<close>; otherwise Python raises
  \<^verbatim>\<open>TypeError: super(type, obj): obj must be an instance or subtype of type\<close>. The
  classes are those of the file; both normalization classes are declared with the single
  base \<^verbatim>\<open>tf.keras.layers.Layer\<close>.
\<close>

datatype py_class = Layer | BatchNormalization | LayerNormalization

fun py_mro :: "py_class \<Rightarrow> py_class list" where
  "py_mro Layer = [Layer]"
| "py_mro BatchNormalization = [BatchNormalization, Layer]"
| "py_mro LayerNormalization = [LayerNormalization, Layer]"

definition py_super :: "py_class \<Rightarrow> py_class \<Rightarrow> error + py_class list" where
  "py_super type obj_class =
     (if type \<in> set (py_mro obj_class)
      then Inr (tl (dropWhile (\<lambda>c. c \<noteq> type) (py_mro obj_class)))
      else Inl TypeError)"

text \<open>
  In Python 3 \<^verbatim>\<open>range(n)\<close> is an immutable sequence: \<^verbatim>\<open>r[i] = v\<close> raises
  \<^verbatim>\<open>TypeError: 'range' object does not support item assignment\<close>. A list takes the
  assignment when the index, counted from the end if negative, is in range.
\<close>

datatype py_seq = PyRange nat | PyList "int list"

fun py_items :: "py_seq \<Rightarrow> int list" where
  "py_items (PyRange n) = map int [0..<n]"
| "py_items (PyList xs) = xs"

definition py_len :: "py_seq \<Rightarrow> nat" where
  "py_len q = length (py_items q)"

fun py_setitem :: "py_seq \<Rightarrow> int \<Rightarrow> int \<Rightarrow> error + py_seq" where
  "py_setitem (PyRange n) i v = Inl TypeError"
| "py_setitem (PyList xs) i v =
     (let j = (if i < 0 then int (length xs) + i else i)
      in if 0 \<le> j \<and> j < int (length xs) then Inr (PyList (xs[nat j := v]))
         else Inl IndexError)"

text \<open>
  A name that is bound neither in the function nor in the module raises \<^verbatim>\<open>NameError\<close>
  when it is read. The environment lists the tensor-valued names bound at that point.
\<close>

definition py_name :: "(string \<times> 'a) list \<Rightarrow> string \<Rightarrow> error + 'a" where
  "py_name env x = (case map_of env x of None \<Rightarrow> Inl NameError | Some v \<Rightarrow> Inr v)"

text \<open>
  A weight is \<^verbatim>\<open>None\<close> until \<^verbatim>\<open>build\<close> has run. A Python operator with a \<^verbatim>\<open>None\<close> operand
  (\<^verbatim>\<open>0.99 * None\<close>, \<^verbatim>\<open>None + 0.001\<close>, \<^verbatim>\<open>range(None)\<close>) raises \<^verbatim>\<open>TypeError\<close>; TensorFlow,
  asked to convert \<^verbatim>\<open>None\<close> to a tensor, raises \<^verbatim>\<open>ValueError\<close>.
\<close>

definition py_operand :: "'a option \<Rightarrow> error + 'a" where
  "py_operand w = (case w of None \<Rightarrow> Inl TypeError | Some t \<Rightarrow> Inr t)"

definition tf_operand :: "'a option \<Rightarrow> error + 'a" where
  "tf_operand w = (case w of None \<Rightarrow> Inl ValueError | Some t \<Rightarrow> Inr t)"

section \<open>The TensorFlow operations the numeric layers call\<close>

text \<open>
  The numeric layers compute with 32-bit floating point tensors through TensorFlow.
  TensorFlow is not part of the repository, so its operations are parameters of the
  model: a record of functions over a type \<open>'t\<close> of tensors. Each field is named after the
  call it stands for, and returns \<open>error + 't\<close> where TensorFlow can reject its arguments
  (an axis out of range, shapes that do not broadcast). Every statement below about the
  layers holds for all such operations, whatever arithmetic they carry out. Python
  floats that are hyperparameters (\<^verbatim>\<open>momentum\<close>, \<^verbatim>\<open>epsilon\<close>) are real numbers.
\<close>

record 't tf_math =
  tf_reduce_mean :: "'t \<Rightarrow> int option \<Rightarrow> bool \<Rightarrow> error + 't"
  tf_reduce_std :: "'t \<Rightarrow> int option \<Rightarrow> bool \<Rightarrow> error + 't"
  tf_divide :: "'t \<Rightarrow> 't \<Rightarrow> error + 't"
  tf_multiply :: "'t \<Rightarrow> 't \<Rightarrow> error + 't"
  tf_stop_gradient :: "'t \<Rightarrow> 't"
  tensor_add :: "'t \<Rightarrow> 't \<Rightarrow> error + 't"
  tensor_sub :: "'t \<Rightarrow> 't \<Rightarrow> error + 't"
  tensor_truediv :: "'t \<Rightarrow> 't \<Rightarrow> error + 't"
  float_mul_tensor :: "real \<Rightarrow> 't \<Rightarrow> 't"
  tensor_add_float :: "'t \<Rightarrow> real \<Rightarrow> 't"

datatype py_float = Float real | PosInf | NegInf

record 't tf_linalg =
  tf_shape :: "'t \<Rightarrow> nat list"
  tf_matmul :: "'t \<Rightarrow> 't \<Rightarrow> error + 't"
  tf_transpose :: "'t \<Rightarrow> int list \<Rightarrow> error + 't"
  tf_sqrt :: "real \<Rightarrow> 't"
  tf_band_part :: "'t \<Rightarrow> int \<Rightarrow> int \<Rightarrow> error + 't"
  tf_ones :: "nat list \<Rightarrow> 't"
  tf_diag :: "real list \<Rightarrow> 't"
  tf_tensor_diag :: "'t \<Rightarrow> error + 't"
  tf_where_equal :: "'t \<Rightarrow> real \<Rightarrow> py_float \<Rightarrow> py_float \<Rightarrow> 't"
  tf_softmax :: "'t \<Rightarrow> int \<Rightarrow> error + 't"
  tf_one_hot :: "'t \<Rightarrow> nat \<Rightarrow> 't"
  tf_convert_to_tensor :: "real list \<Rightarrow> 't"
  tf_reshape_op :: "'t \<Rightarrow> nat list \<Rightarrow> error + 't"

text \<open>
  \<^verbatim>\<open>self.add_weight(name, shape=..., initializer=_mti.SmallNormal())\<close> creates a weight
  from a random initializer of \<^verbatim>\<open>mlable.tensorflow.initializers\<close>, a module that is not
  among the sources: the created tensor is a parameter \<open>add_weight name shape\<close>.
\<close>

type_synonym 't add_weight = "string \<Rightarrow> nat list \<Rightarrow> 't"

section \<open>Normalization layers\<close>

text \<open>
  \<^verbatim>\<open>
  class BatchNormalization(tf.keras.layers.Layer):
      def __init__(self, axis=0, momentum=0.99, epsilon=0.001, **kwargs):
          super(BatchNormalization, self).__init__(**kwargs)
          self._axis = axis
          self._momentum = momentum
          self._epsilon = epsilon
          self._mean = None
          self._stddev = None
          self._gain = None
          self._bias = None

  class LayerNormalization(tf.keras.layers.Layer):
      def __init__(self, axis=-1, momentum=0.99, epsilon=0.001, **kwargs):
          super(BatchNormalization, self).__init__(**kwargs)
          ...   # the same seven assignments
  \<close>
  Both classes have the same attributes, so one record holds the state of either. An
  argument left out is \<open>None\<close> and takes the default of the signature.
\<close>

record 't normalization =
  norm_axis :: int
  norm_momentum :: real
  norm_epsilon :: real
  norm_mean :: "'t option"
  norm_stddev :: "'t option"
  norm_gain :: "'t option"
  norm_bias :: "'t option"

definition BatchNormalization_init ::
  "int option \<Rightarrow> real option \<Rightarrow> real option \<Rightarrow> error + 't normalization" where
  "BatchNormalization_init axis momentum epsilon =
     bind (py_super BatchNormalization BatchNormalization) (\<lambda>_.
       Inr \<lparr>norm_axis = (case axis of None \<Rightarrow> 0 | Some a \<Rightarrow> a),
            norm_momentum = (case momentum of None \<Rightarrow> 99 / 100 | Some m \<Rightarrow> m),
            norm_epsilon = (case epsilon of None \<Rightarrow> 1 / 1000 | Some e \<Rightarrow> e),
            norm_mean = None, norm_stddev = None, norm_gain = None, norm_bias = None\<rparr>)"

definition LayerNormalization_init ::
  "int option \<Rightarrow> real option \<Rightarrow> real option \<Rightarrow> error + 't normalization" where
  "LayerNormalization_init axis momentum epsilon =
     bind (py_super BatchNormalization LayerNormalization) (\<lambda>_.
       Inr \<lparr>norm_axis = (case axis of None \<Rightarrow> - 1 | Some a \<Rightarrow> a),
            norm_momentum = (case momentum of None \<Rightarrow> 99 / 100 | Some m \<Rightarrow> m),
            norm_epsilon = (case epsilon of None \<Rightarrow> 1 / 1000 | Some e \<Rightarrow> e),
            norm_mean = None, norm_stddev = None, norm_gain = None, norm_bias = None\<rparr>)"

text \<open>
  \<^verbatim>\<open>
      def build(self, shape: tuple):
          __axis = self._axis % len(shape)
          __shape = [__d for __i, __d in enumerate(shape) if __i != __axis]
          ...
          self._mean = self.add_weight("mean", shape=__shape, initializer=__mean_init)
          self._stddev = self.add_weight("stddev", shape=__shape, initializer=__stddev_init)
          self._gain = self.add_weight("gain", shape=__shape, initializer=__gain_init)
          self._bias = self.add_weight("bias", shape=__shape, initializer=__bias_init)
  \<close>
  The text of \<^verbatim>\<open>build\<close> is the same in both classes.
\<close>

definition BatchNormalization_build ::
  "'t add_weight \<Rightarrow> 't normalization \<Rightarrow> nat list \<Rightarrow> error + 't normalization" where
  "BatchNormalization_build add_weight self shp =
     (if length shp = 0 then Inl ZeroDivisionError
      else
        let axis = nat (norm_axis self mod int (length shp));
            wshape = map snd (filter (\<lambda>(i, d). i \<noteq> axis) (enumerate 0 shp))
        in Inr (self\<lparr>norm_mean := Some (add_weight ''mean'' wshape),
                     norm_stddev := Some (add_weight ''stddev'' wshape),
                     norm_gain := Some (add_weight ''gain'' wshape),
                     norm_bias := Some (add_weight ''bias'' wshape)\<rparr>))"

definition LayerNormalization_build ::
  "'t add_weight \<Rightarrow> 't normalization \<Rightarrow> nat list \<Rightarrow> error + 't normalization" where
  "LayerNormalization_build add_weight self shp =
     (if length shp = 0 then Inl ZeroDivisionError
      else
        let axis = nat (norm_axis self mod int (length shp));
            wshape = map snd (filter (\<lambda>(i, d). i \<noteq> axis) (enumerate 0 shp))
        in Inr (self\<lparr>norm_mean := Some (add_weight ''mean'' wshape),
                     norm_stddev := Some (add_weight ''stddev'' wshape),
                     norm_gain := Some (add_weight ''gain'' wshape),
                     norm_bias := Some (add_weight ''bias'' wshape)\<rparr>))"

text \<open>
  \<^verbatim>\<open>
      def call(self, inputs: tf.Tensor, training: bool=True, **kwargs):
          if training:
              # current values
              __batch_mean = tf.math.reduce_mean(inputs, axis=self._axis, keepdims=True)
              __batch_stddev = tf.math.reduce_std(inputs, axis=self._axis, keepdims=True)
              # update parameters
              self._mean = tf.stop_gradient(self._momentum * self._mean + (1. - self._momentum) * __batch_mean)
              self._stddev = tf.stop_gradient(self._momentum * self._stddev + (1. - self._momentum) * __batch_stddev)
          # normalize
          __normalized = tf.math.divide(inputs - self._mean, self._stddev + self._epsilon)
          # scale
          return tf.math.multiply(self._gain, __normalized) + self._bias
  \<close>
  \<^verbatim>\<open>call\<close> assigns to attributes of \<open>self\<close>, so the model passes the layer through and
  returns it with the result. An exception leaves the assignments made before it in
  place: the layer is returned in either case. The right-hand side of the two updates is
  \<open>update_parameter\<close>; the block under \<^verbatim>\<open>if training\<close> is \<open>update_statistics\<close>; the two
  statements after it are \<open>normalize_scale\<close>.
\<close>

definition update_parameter :: "'t tf_math \<Rightarrow> real \<Rightarrow> 't option \<Rightarrow> 't \<Rightarrow> error + 't" where
  "update_parameter tf momentum running current =
     bind (py_operand running) (\<lambda>r.
     bind (tensor_add tf (float_mul_tensor tf momentum r)
                         (float_mul_tensor tf (1 - momentum) current)) (\<lambda>s.
     Inr (tf_stop_gradient tf s)))"

definition update_statistics ::
  "'t tf_math \<Rightarrow> 't normalization \<Rightarrow> 't \<Rightarrow> (error + unit) \<times> 't normalization" where
  "update_statistics tf self inputs =
     (case tf_reduce_mean tf inputs (Some (norm_axis self)) True of
        Inl e \<Rightarrow> (Inl e, self)
      | Inr batch_mean \<Rightarrow>
     (case tf_reduce_std tf inputs (Some (norm_axis self)) True of
        Inl e \<Rightarrow> (Inl e, self)
      | Inr batch_stddev \<Rightarrow>
     (case update_parameter tf (norm_momentum self) (norm_mean self) batch_mean of
        Inl e \<Rightarrow> (Inl e, self)
      | Inr m \<Rightarrow>
     (case update_parameter tf (norm_momentum self) (norm_stddev self) batch_stddev of
        Inl e \<Rightarrow> (Inl e, self\<lparr>norm_mean := Some m\<rparr>)
      | Inr s \<Rightarrow> (Inr (), self\<lparr>norm_mean := Some m, norm_stddev := Some s\<rparr>)))))"

definition normalize_scale :: "'t tf_math \<Rightarrow> 't normalization \<Rightarrow> 't \<Rightarrow> error + 't" where
  "normalize_scale tf self inputs =
     bind (tf_operand (norm_mean self)) (\<lambda>mean.
     bind (tensor_sub tf inputs mean) (\<lambda>centered.
     bind (py_operand (norm_stddev self)) (\<lambda>stddev.
     bind (tf_divide tf centered (tensor_add_float tf stddev (norm_epsilon self))) (\<lambda>normalized.
     bind (tf_operand (norm_gain self)) (\<lambda>gain.
     bind (tf_multiply tf gain normalized) (\<lambda>scaled.
     bind (tf_operand (norm_bias self)) (\<lambda>bias.
     tensor_add tf scaled bias)))))))"

definition BatchNormalization_call ::
  "'t tf_math \<Rightarrow> 't normalization \<Rightarrow> 't \<Rightarrow> bool option \<Rightarrow> (error + 't) \<times> 't normalization" where
  "BatchNormalization_call tf self inputs training_arg =
     (let training = (case training_arg of None \<Rightarrow> True | Some b \<Rightarrow> b)
      in if training
         then (case update_statistics tf self inputs of
                 (Inl e, self') \<Rightarrow> (Inl e, self')
               | (Inr _, self') \<Rightarrow> (normalize_scale tf self' inputs, self'))
         else (normalize_scale tf self inputs, self))"

definition LayerNormalization_call ::
  "'t tf_math \<Rightarrow> 't normalization \<Rightarrow> 't \<Rightarrow> bool option \<Rightarrow> (error + 't) \<times> 't normalization" where
  "LayerNormalization_call tf self inputs training_arg =
     (let training = (case training_arg of None \<Rightarrow> True | Some b \<Rightarrow> b)
      in if training
         then (case update_statistics tf self inputs of
                 (Inl e, self') \<Rightarrow> (Inl e, self')
               | (Inr _, self') \<Rightarrow> (normalize_scale tf self' inputs, self'))
         else (normalize_scale tf self inputs, self))"

section \<open>Attention\<close>

text \<open>
  \<^verbatim>\<open>
  class Attention(tf.keras.layers.Layer):
      def __init__(self, head_dim: int, head_count: int=1, **kwargs):
          self._time_dim = None
          self._head_dim = head_dim
          self._head_count = head_count
          self._key = None
          self._query = None
          self._value = None

      def build(self, shape: tuple) -> None:
          self._time_dim = list(shape)[-1]
          ...
          self._key = self.add_weight("key", shape=[int(shape[-1]), self._head_dim], initializer=__key_init)
          self._query = self.add_weight("query", shape=[int(shape[-1]), self._head_dim], initializer=__query_init)
          self._value = self.add_weight("value", shape=[int(shape[-1]), self._head_dim], initializer=__value_init)
  \<close>
\<close>

record 't attention =
  att_time_dim :: "nat option"
  att_head_dim :: nat
  att_head_count :: nat
  att_key :: "'t option"
  att_query :: "'t option"
  att_value :: "'t option"

definition Attention_init :: "nat \<Rightarrow> nat option \<Rightarrow> 't attention" where
  "Attention_init head_dim head_count =
     \<lparr>att_time_dim = None, att_head_dim = head_dim,
      att_head_count = (case head_count of None \<Rightarrow> 1 | Some c \<Rightarrow> c),
      att_key = None, att_query = None, att_value = None\<rparr>"

definition Attention_build ::
  "'t add_weight \<Rightarrow> 't attention \<Rightarrow> nat list \<Rightarrow> error + 't attention" where
  "Attention_build add_weight self shp =
     (if shp = [] then Inl IndexError
      else Inr (self\<lparr>att_time_dim := Some (last shp),
                     att_key := Some (add_weight ''key'' [last shp, att_head_dim self]),
                     att_query := Some (add_weight ''query'' [last shp, att_head_dim self]),
                     att_value := Some (add_weight ''value'' [last shp, att_head_dim self])\<rparr>))"

text \<open>
  \<^verbatim>\<open>
      def call(self, inputs: tf.Tensor, **kwargs) -> tf.Tensor:
          # transpose the last two axes
          __perm = range(len(list(inputs.shape)))
          __perm[-1] = len(__perm) - 2
          __perm[-2] = len(__perm) - 1
          # key
          __k = tf.matmul(inputs, self._key)
          # query
          __q = tf.matmul(inputs, self._query)
          # weight
          __w = tf.matmul(__k, tf.transpose(__q, perm=__perm)) / tf.math.sqrt(float(self._head_dim))
          # mask
          __m = tf.linalg.band_part(tf.ones((self._time_dim, self._time_dim)), num_lower=0, num_upper=-1) - tf.linalg.diag(self._time_dim * [1.])
          __u = tf.where(__m == 1., -np.inf, 0.)
          __l = tf.linalg.band_part(__w, num_lower=-1, num_upper=0)
          # probabilities
          __w = tf.nn.softmax(__u + __l, axis=-1)
          # value
          return tf.matmul(__w, self._value)
  \<close>
  The statements are taken in order; \<open>bind\<close> stops at the first one that raises.
\<close>

definition Attention_call ::
  "'t tf_math \<Rightarrow> 't tf_linalg \<Rightarrow> 't attention \<Rightarrow> 't \<Rightarrow> error + 't" where
  "Attention_call tm tf self inputs =
     (let perm0 = PyRange (length (tf_shape tf inputs)) in
      bind (py_setitem perm0 (- 1) (int (py_len perm0) - 2)) (\<lambda>perm1.
      bind (py_setitem perm1 (- 2) (int (py_len perm1) - 1)) (\<lambda>perm.
      bind (tf_operand (att_key self)) (\<lambda>key.
      bind (tf_matmul tf inputs key) (\<lambda>k.
      bind (tf_operand (att_query self)) (\<lambda>query.
      bind (tf_matmul tf inputs query) (\<lambda>q.
      bind (tf_transpose tf q (py_items perm)) (\<lambda>qt.
      bind (tf_matmul tf k qt) (\<lambda>kq.
      bind (tensor_truediv tm kq (tf_sqrt tf (real (att_head_dim self)))) (\<lambda>w.
      bind (py_operand (att_time_dim self)) (\<lambda>time_dim.
      bind (tf_band_part tf (tf_ones tf [time_dim, time_dim]) 0 (- 1)) (\<lambda>upper.
      bind (tensor_sub tm upper (tf_diag tf (replicate time_dim 1))) (\<lambda>m.
      let u = tf_where_equal tf m 1 NegInf (Float 0) in
      bind (tf_band_part tf w (- 1) 0) (\<lambda>l.
      bind (tensor_add tm u l) (\<lambda>masked.
      bind (tf_softmax tf masked (- 1)) (\<lambda>w.
      bind (tf_operand (att_value self)) (\<lambda>val.
      tf_matmul tf w val)))))))))))))))))"

section \<open>Embedding\<close>

text \<open>
  \<^verbatim>\<open>
  class Embedding(tf.keras.layers.Layer):
      def __init__(self, input_dim: int, output_dim: int, add_position: bool=False, **kwargs):
          self._add_position = add_position
          self._input_dim = input_dim
          self._output_dim = output_dim
          self._time_dim = None
          self._content_kernel = None
          self._position_kernel = None

      def build(self, shape: tuple):
          self._content_kernel = self.add_weight("content-kernel", shape=[self._input_dim, self._output_dim], ...)
          self._time_dim = list(shape)[-1]
          if self._add_position:
              self._position_kernel = self.add_weight("position-kernel", shape=[self._time_dim, self._output_dim], ...)

      def call(self, inputs: tf.Tensor, **kwargs):
          # content embedding
          __x = tf.one_hot(indices=inputs, depth=self._input_dim, dtype=tf.dtypes.float32)
          __y = tf.matmul(__x, self._content_kernel)
          # position embedding
          if self._add_position:
              __diag = tf.convert_to_tensor(range(self._time_dim), dtype=tf.dtypes.float32)
              __diag = (__values - tf.math.reduce_mean(__diag)) / tf.math.reduce_std(__diag) # normalize
              __x_pos = tf.linalg.tensor_diag(__diag)
              __y_pos = tf.matmul(__x_pos, self._position_kernel)
              __y = __y + tf.reshape(tensor=__y_pos, shape=[1] + list(__y_pos.shape))
          # overall embedding
          return __y
  \<close>
  The name \<^verbatim>\<open>__values\<close> is assigned nowhere in \<^verbatim>\<open>call\<close> and nowhere in the module; where it
  is read, the tensors in scope are \<^verbatim>\<open>inputs\<close>, \<^verbatim>\<open>__x\<close>, \<^verbatim>\<open>__y\<close> and \<^verbatim>\<open>__diag\<close>. The left operand
  of the subtraction is evaluated first.
\<close>

record 't embedding =
  emb_add_position :: bool
  emb_input_dim :: nat
  emb_output_dim :: nat
  emb_time_dim :: "nat option"
  emb_content_kernel :: "'t option"
  emb_position_kernel :: "'t option"

definition Embedding_init :: "nat \<Rightarrow> nat \<Rightarrow> bool option \<Rightarrow> 't embedding" where
  "Embedding_init input_dim output_dim add_position =
     \<lparr>emb_add_position = (case add_position of None \<Rightarrow> False | Some b \<Rightarrow> b),
      emb_input_dim = input_dim, emb_output_dim = output_dim,
      emb_time_dim = None, emb_content_kernel = None, emb_position_kernel = None\<rparr>"

definition Embedding_build ::
  "'t add_weight \<Rightarrow> 't embedding \<Rightarrow> nat list \<Rightarrow> error + 't embedding" where
  "Embedding_build add_weight self shp =
     (let self1 = self\<lparr>emb_content_kernel :=
                    Some (add_weight ''content-kernel'' [emb_input_dim self, emb_output_dim self])\<rparr>
      in if shp = [] then Inl IndexError
         else
           let self2 = self1\<lparr>emb_time_dim := Some (last shp)\<rparr>
           in if emb_add_position self2
              then Inr (self2\<lparr>emb_position_kernel :=
                          Some (add_weight ''position-kernel'' [last shp, emb_output_dim self2])\<rparr>)
              else Inr self2)"

definition Embedding_call ::
  "'t tf_math \<Rightarrow> 't tf_linalg \<Rightarrow> 't embedding \<Rightarrow> 't \<Rightarrow> error + 't" where
  "Embedding_call tm tf self inputs =
     (let x = tf_one_hot tf inputs (emb_input_dim self) in
      bind (tf_operand (emb_content_kernel self)) (\<lambda>content_kernel.
      bind (tf_matmul tf x content_kernel) (\<lambda>y.
      if emb_add_position self then
        bind (py_operand (emb_time_dim self)) (\<lambda>time_dim.
        let diag = tf_convert_to_tensor tf (map real [0..<time_dim]) in
        bind (py_name [(''inputs'', inputs), (''__x'', x), (''__y'', y), (''__diag'', diag)]
                ''__values'') (\<lambda>values.
        bind (tf_reduce_mean tm diag None False) (\<lambda>mean.
        bind (tensor_sub tm values mean) (\<lambda>centered.
        bind (tf_reduce_std tm diag None False) (\<lambda>stddev.
        bind (tensor_truediv tm centered stddev) (\<lambda>diag.
        bind (tf_tensor_diag tf diag) (\<lambda>x_pos.
        bind (tf_operand (emb_position_kernel self)) (\<lambda>position_kernel.
        bind (tf_matmul tf x_pos position_kernel) (\<lambda>y_pos.
        bind (tf_reshape_op tf y_pos (1 # tf_shape tf y_pos)) (\<lambda>y_pos1.
        tensor_add tm y y_pos1))))))))))
      else Inr y)))"

section \<open>A reference instance of the arithmetic: real vectors\<close>

text \<open>
  The operations of \<open>tf_math\<close> on tensors of rank one whose elements are real numbers, a
  list standing for the vector. An element-wise operation broadcasts a vector of length
  one and rejects two lengths that differ otherwise; a reduction along the only axis
  (\<open>0\<close>, or \<open>-1\<close>) keeps a vector of length one; the standard deviation is the population
  one, as in \<^verbatim>\<open>tf.math.reduce_std\<close>. This instance is what the statements about the
  normalization layers are evaluated on.
\<close>

definition vec_broadcast ::
  "(real \<Rightarrow> real \<Rightarrow> real) \<Rightarrow> real list \<Rightarrow> real list \<Rightarrow> error + real list" where
  "vec_broadcast f a b =
     (if length a = length b then Inr (map2 f a b)
      else if length a = 1 then Inr (map (f (hd a)) b)
      else if length b = 1 then Inr (map (\<lambda>x. f x (hd b)) a)
      else Inl InvalidArgumentError)"

definition vec_mean :: "real list \<Rightarrow> real" where
  "vec_mean xs = sum_list xs / real (length xs)"

definition vec_std :: "real list \<Rightarrow> real" where
  "vec_std xs = sqrt (vec_mean (map (\<lambda>x. (x - vec_mean xs)\<^sup>2) xs))"

definition vec_reduce ::
  "(real list \<Rightarrow> real) \<Rightarrow> real list \<Rightarrow> int option \<Rightarrow> bool \<Rightarrow> error + real list" where
  "vec_reduce g xs axis keepdims =
     (case axis of
        None \<Rightarrow> Inr [g xs]
      | Some a \<Rightarrow> if a = 0 \<or> a = - 1 then Inr [g xs] else Inl InvalidArgumentError)"

definition vec_math :: "real list tf_math" where
  "vec_math =
     \<lparr>tf_reduce_mean = vec_reduce vec_mean,
      tf_reduce_std = vec_reduce vec_std,
      tf_divide = vec_broadcast (\<lambda>x y. x / y),
      tf_multiply = vec_broadcast (\<lambda>x y. x * y),
      tf_stop_gradient = (\<lambda>t. t),
      tensor_add = vec_broadcast (\<lambda>x y. x + y),
      tensor_sub = vec_broadcast (\<lambda>x y. x - y),
      tensor_truediv = vec_broadcast (\<lambda>x y. x / y),
      float_mul_tensor = (\<lambda>c t. map (\<lambda>x. c * x) t),
      tensor_add_float = (\<lambda>t c. map (\<lambda>x. x + c) t)\<rparr>"

text \<open>
  An initializer for that instance: every weight starts at zero, one element for each
  element of the requested shape.
\<close>

definition zero_weight :: "real list add_weight" where
  "zero_weight name shp = replicate (prod_list shp) 0"

section \<open>Properties of the reshaping layers\<close>

text \<open>
  What \<^verbatim>\<open>tf.reshape\<close> returns and which exception it raises.
\<close>

lemma tf_num_elements_Inr:
  "tf_num_elements acc s = Inr k \<Longrightarrow> k = acc * prod_list s"
proof (induction s arbitrary: acc)
  case Nil
  then show ?case by simp
next
  case (Cons d ds)
  from Cons.prems have "tf_num_elements (acc * d) ds = Inr k"
    by (simp split: if_splits)
  from Cons.IH [OF this] show ?case by (simp add: mult.assoc)
qed

lemma tf_num_elements_Inl:
  "tf_num_elements acc s = Inl e \<Longrightarrow> e = InvalidArgumentError"
  by (induction s arbitrary: acc) (auto split: if_splits)

lemma tf_reshape_elems: "tf_reshape t s = Inr u \<Longrightarrow> elems u = elems t \<and> shape u = s"
  by (auto simp: tf_reshape_def split: if_splits sum.splits)

lemma tf_reshape_Inr:
  "tf_reshape t s = Inr u \<Longrightarrow> tf_shape_ok s \<and> prod_list s = prod_list (shape t)"
  by (auto simp: tf_reshape_def tf_shape_ok_def split: if_splits sum.splits
      dest: tf_num_elements_Inr)

lemma tf_reshape_wf: "wf_tensor t \<Longrightarrow> tf_reshape t s = Inr u \<Longrightarrow> wf_tensor u"
  using tf_reshape_Inr [of t s u] tf_reshape_elems [of t s u]
  by (simp add: wf_tensor_def)

lemma tf_reshape_ok:
  "tf_shape_ok s \<Longrightarrow> prod_list s = prod_list (shape t) \<Longrightarrow> tf_reshape t s = Inr (t\<lparr>shape := s\<rparr>)"
  by (simp add: tf_reshape_def tf_shape_ok_def)

lemma tf_reshape_mismatch:
  assumes "prod_list s \<noteq> prod_list (shape t)"
  shows "tf_reshape t s =
     Inl (if list_all (\<lambda>d. d \<le> int64_max) s then InvalidArgumentError else ValueError)"
proof (cases "tf_num_elements 1 s")
  case (Inl e)
  then show ?thesis using tf_num_elements_Inl [OF Inl] by (simp add: tf_reshape_def)
next
  case (Inr k)
  then show ?thesis using tf_num_elements_Inr [OF Inr] assms by (simp add: tf_reshape_def)
qed

text \<open>
  Arithmetic of the two axes and of the number of elements: for a rank of at least two
  the merge axis and its neighbour are distinct positions of the shape, and the product
  of a shape is the product of two of its entries and of the rest.
\<close>

lemma prod_list_nth_one:
  "i < length xs \<Longrightarrow> prod_list xs = xs ! i * prod_list (xs[i := (1::nat)])"
proof (induction xs arbitrary: i)
  case Nil
  then show ?case by simp
next
  case (Cons x xs)
  show ?case
  proof (cases i)
    case 0
    then show ?thesis by simp
  next
    case (Suc j)
    with Cons.prems have "j < length xs" by simp
    from Cons.IH [OF this] Suc show ?thesis by simp
  qed
qed

lemma prod_list_two_axes:
  assumes "i < length xs" "j < length xs" "i \<noteq> j"
  shows "prod_list (xs[i := u, j := v]) = u * v * prod_list (xs[i := 1, j := (1::nat)])"
proof -
  have swap: "xs[i := u, j := v] = xs[j := v, i := u]"
    using assms(3) by (rule list_update_swap)
  have "prod_list (xs[j := v, i := u]) = u * prod_list (xs[j := v, i := 1])"
    using prod_list_nth_one [of i "xs[j := v, i := u]"] assms by simp
  moreover have "xs[j := v, i := 1] = xs[i := 1, j := v]"
    using assms(3) by (simp add: list_update_swap [of i j])
  moreover have "prod_list (xs[i := 1, j := v]) = v * prod_list (xs[i := 1, j := 1])"
    using prod_list_nth_one [of j "xs[i := 1, j := v]"] assms by simp
  ultimately show ?thesis using swap by (simp add: mult_ac)
qed

lemma prod_list_two_axes_id:
  assumes "i < length xs" "j < length xs" "i \<noteq> j"
  shows "prod_list xs = xs ! i * xs ! j * prod_list (xs[i := 1, j := (1::nat)])"
  using prod_list_two_axes [OF assms, of "xs ! i" "xs ! j"] by simp

lemma merge_axes_distinct:
  assumes "2 \<le> r"
  shows "nat (a mod int r) \<noteq> nat ((a + 1) mod int r)"
proof
  assume eq: "nat (a mod int r) = nat ((a + 1) mod int r)"
  have r: "0 < int r" using assms by simp
  have "0 \<le> a mod int r" "0 \<le> (a + 1) mod int r" using r by simp_all
  with eq have "a mod int r = (a + 1) mod int r" by linarith
  then have "int r dvd a - (a + 1)" by (simp only: mod_eq_dvd_iff)
  then have "int r dvd 1" by simp
  then show False using assms by simp
qed

lemma merge_axes_less:
  "0 < r \<Longrightarrow> nat (a mod int r) < r"
  using pos_mod_bound [of "int r" a] pos_mod_sign [of "int r" a] by linarith


lemma Merge_call_unfold:
  assumes "shape x \<noteq> []" and "0 < merge_n self"
  shows "Merge_call self x = tf_reshape x (merged_shape (merge_axis self) (merge_n self) (shape x))"
  using assms by (simp add: Merge_call_def merged_shape_def Let_def)

lemma length_merged_shape: "length (merged_shape axis n s) = length s"
  by (simp add: merged_shape_def Let_def)

lemma merged_prod_list:
  assumes rank: "2 \<le> length (s::nat list)" and dvd: "n dvd s ! nat (axis mod int (length s))"
  shows "prod_list (merged_shape axis n s) = prod_list s"
proof -
  let ?a0 = "nat (axis mod int (length s))"
  let ?a1 = "nat ((axis + 1) mod int (length s))"
  have r: "0 < length s" using rank by linarith
  have a0: "?a0 < length s" and a1: "?a1 < length s"
    using r by (rule merge_axes_less)+
  have ne: "?a0 \<noteq> ?a1" using rank by (rule merge_axes_distinct)
  have "prod_list (s[?a0 := s ! ?a0 div n, ?a1 := s ! ?a1 * n])
      = (s ! ?a0 div n) * (s ! ?a1 * n) * prod_list (s[?a0 := 1, ?a1 := 1])"
    using a0 a1 ne by (rule prod_list_two_axes)
  also have "(s ! ?a0 div n) * (s ! ?a1 * n) = (s ! ?a0 div n * n) * s ! ?a1"
    by (simp add: mult_ac)
  also have "s ! ?a0 div n * n = s ! ?a0" using dvd by simp
  also have "s ! ?a0 * s ! ?a1 * prod_list (s[?a0 := 1, ?a1 := 1]) = prod_list s"
    using a0 a1 ne by (rule prod_list_two_axes_id [symmetric])
  finally show ?thesis by (simp add: merged_shape_def Let_def)
qed

lemma indivisible_prod_list:
  assumes rank: "(s::nat list) \<noteq> []" and nonempty: "0 < prod_list s" and n: "0 < n"
    and ndvd: "\<not> n dvd s ! nat (axis mod int (length s))"
  shows "prod_list (merged_shape axis n s) \<noteq> prod_list s"
proof -
  let ?a0 = "nat (axis mod int (length s))"
  let ?a1 = "nat ((axis + 1) mod int (length s))"
  let ?t = "s[?a0 := s ! ?a0 div n, ?a1 := s ! ?a1 * n]"
  have r: "0 < length s" using rank by simp
  have a0: "?a0 < length s" and a1: "?a1 < length s"
    using r by (rule merge_axes_less)+
  have lt: "s ! ?a0 div n * n < s ! ?a0"
    using ndvd n by (metis div_mult_mod_eq dvd_eq_mod_eq_0 less_add_same_cancel1 mod_greater_zero_iff_not_dvd)
  have n2: "2 \<le> n" using ndvd n by (cases "n = 1") auto
  have "prod_list ?t \<noteq> prod_list s"
  proof (cases "?a0 = ?a1")
    case True
    have t: "?t = s[?a0 := s ! ?a0 * n]" using True by simp
    have s: "prod_list s = s ! ?a0 * prod_list (s[?a0 := 1])"
      using a0 by (rule prod_list_nth_one)
    have "prod_list (s[?a0 := s ! ?a0 * n]) = (s ! ?a0 * n) * prod_list (s[?a0 := 1])"
      using prod_list_nth_one [of ?a0 "s[?a0 := s ! ?a0 * n]"] a0 by simp
    moreover have "0 < s ! ?a0 * prod_list (s[?a0 := 1])" using nonempty s by simp
    ultimately show ?thesis using s t n2 by auto
  next
    case ne: False
    have t: "prod_list ?t = (s ! ?a0 div n * n) * (s ! ?a1 * prod_list (s[?a0 := 1, ?a1 := 1]))"
      using prod_list_two_axes [OF a0 a1 ne, of "s ! ?a0 div n" "s ! ?a1 * n"]
      by (simp add: mult_ac)
    have s: "prod_list s = s ! ?a0 * (s ! ?a1 * prod_list (s[?a0 := 1, ?a1 := 1]))"
      using prod_list_two_axes_id [OF a0 a1 ne] by (simp add: mult_ac)
    have "0 < s ! ?a1 * prod_list (s[?a0 := 1, ?a1 := 1])"
      using nonempty s by (metis nat_0_less_mult_iff)
    with lt have "prod_list ?t < prod_list s" unfolding t s by simp
    then show ?thesis by simp
  qed
  then show ?thesis by (simp add: merged_shape_def Let_def)
qed

lemma Merge_call_divisible:
  assumes rank: "2 \<le> length (shape x)" and n: "0 < n"
    and dvd: "n dvd shape x ! nat (axis mod int (length (shape x)))"
    and fits: "tf_shape_ok (merged_shape axis n (shape x))"
  shows "Merge_call (Merge_init axis n) x = Inr (x\<lparr>shape := merged_shape axis n (shape x)\<rparr>)"
proof -
  have "shape x \<noteq> []" using rank by auto
  then show ?thesis
    using n tf_reshape_ok [OF fits merged_prod_list [OF rank dvd]]
    by (simp add: Merge_call_unfold Merge_init_def)
qed

text \<open>
  The sizes are 64-bit: merging the empty tensor of shape \<open>[0, 2^62]\<close> by four along axis 0
  asks for the size \<open>2^64\<close>, which \<^verbatim>\<open>tf.reshape\<close> cannot convert, and the running count of
  \<open>[2^32, 2^32, 0]\<close> overflows although the shape holds no element.
\<close>

lemma Merge_call_size_overflow:
  "Merge_call (Merge_init 0 4) \<lparr>shape = [0, 4611686018427387904], elems = ([]::int list)\<rparr>
     = Inl ValueError"
  by (simp add: Merge_call_def Merge_init_def tf_reshape_def int64_max_def)

lemma tf_reshape_too_many_elements:
  "tf_reshape \<lparr>shape = [0], elems = ([]::int list)\<rparr> [4294967296, 4294967296, 0]
     = Inl InvalidArgumentError"
  by (simp add: tf_reshape_def int64_max_def)

text \<open>
  Claim C1, as amended. For every tensor \<open>x\<close> of rank at least two and every factor
  \<open>n \<ge> 1\<close> that divides the dimension of \<open>x\<close> along the merge axis, if the shape of \<open>x\<close> and
  the merged shape are shapes that TensorFlow can hold (sizes and running element counts
  within a signed 64-bit integer) then \<^verbatim>\<open>Merge(axis, n)\<close> returns a tensor \<open>y\<close> with the
  elements of \<open>x\<close> in the same order, and the \<^verbatim>\<open>Reshape\<close> whose target is the split of the
  shape of \<open>y\<close> by the same factor returns \<open>x\<close> itself.
\<close>

theorem Merge_Reshape_round_trip:
  assumes rank: "2 \<le> length (shape x)" and n: "0 < n"
    and dvd: "n dvd shape x ! nat (axis mod int (length (shape x)))"
    and held: "tf_shape_ok (shape x)"
    and fits: "tf_shape_ok (merged_shape axis n (shape x))"
  shows "\<exists>y. Merge_call (Merge_init axis n) x = Inr y \<and> elems y = elems x \<and>
     Reshape_call (Reshape_init (split_shape axis n (shape y))) y = Inr x"
proof -
  let ?s = "shape x"
  let ?a0 = "nat (axis mod int (length ?s))"
  let ?a1 = "nat ((axis + 1) mod int (length ?s))"
  let ?t = "merged_shape axis n ?s"
  let ?y = "x\<lparr>shape := ?t\<rparr>"
  have r: "0 < length ?s" using rank by linarith
  have a0: "?a0 < length ?s" and a1: "?a1 < length ?s"
    using r by (rule merge_axes_less)+
  have ne: "?a0 \<noteq> ?a1" using rank by (rule merge_axes_distinct)
  have merged: "Merge_call (Merge_init axis n) x = Inr ?y"
    using rank n dvd fits by (rule Merge_call_divisible)
  have undo: "split_shape axis n ?t = ?s"
  proof (rule nth_equalityI)
    show "length (split_shape axis n ?t) = length ?s"
      by (simp add: split_shape_def merged_shape_def Let_def)
  next
    fix i assume "i < length (split_shape axis n ?t)"
    then have i: "i < length ?s" by (simp add: split_shape_def merged_shape_def Let_def)
    show "split_shape axis n ?t ! i = ?s ! i"
      using i a0 a1 ne n dvd
      by (simp add: split_shape_def merged_shape_def Let_def nth_list_update)
  qed
  have "prod_list ?s = prod_list (shape ?y)"
    using merged_prod_list [OF rank dvd] by simp
  from tf_reshape_ok [OF held this] have "tf_reshape ?y ?s = Inr x" by simp
  then have "Reshape_call (Reshape_init (split_shape axis n (shape ?y))) ?y = Inr x"
    using undo by (simp add: Reshape_call_def Reshape_init_def)
  with merged show ?thesis by (intro exI [of _ ?y]) simp
qed

text \<open>
  The round trip at a tensor of shape \<open>[4, 2]\<close> merged by two along axis 0.
\<close>

theorem Merge_Reshape_round_trip_witness:
  "2 \<le> length (shape \<lparr>shape = [4, 2], elems = [1, 2, 3, 4, 5, 6, 7, 8::int]\<rparr>) \<and>
   (0::nat) < 2 \<and>
   (2::nat) dvd shape \<lparr>shape = [4, 2], elems = [1, 2, 3, 4, 5, 6, 7, 8::int]\<rparr>
       ! nat (0 mod int (length (shape \<lparr>shape = [4, 2], elems = [1, 2, 3, 4, 5, 6, 7, 8::int]\<rparr>))) \<and>
   tf_shape_ok (shape \<lparr>shape = [4, 2], elems = [1, 2, 3, 4, 5, 6, 7, 8::int]\<rparr>) \<and>
   tf_shape_ok (merged_shape 0 2 (shape \<lparr>shape = [4, 2], elems = [1, 2, 3, 4, 5, 6, 7, 8::int]\<rparr>)) \<and>
   (\<exists>y. Merge_call (Merge_init 0 2) \<lparr>shape = [4, 2], elems = [1, 2, 3, 4, 5, 6, 7, 8::int]\<rparr> = Inr y \<and>
        shape y = [2, 4] \<and>
        elems y = [1, 2, 3, 4, 5, 6, 7, 8] \<and>
        Reshape_call (Reshape_init (split_shape 0 2 (shape y))) y
          = Inr \<lparr>shape = [4, 2], elems = [1, 2, 3, 4, 5, 6, 7, 8::int]\<rparr>)"
proof -
  let ?x = "\<lparr>shape = [4, 2], elems = [1, 2, 3, 4, 5, 6, 7, 8::int]\<rparr>"
  have rank: "2 \<le> length (shape ?x)" by simp
  have n: "(0::nat) < 2" by simp
  have dvd: "(2::nat) dvd shape ?x ! nat (0 mod int (length (shape ?x)))" by simp
  have held: "tf_shape_ok (shape ?x)" by (simp add: tf_shape_ok_def int64_max_def)
  have fits: "tf_shape_ok (merged_shape 0 2 (shape ?x))"
    by (simp add: tf_shape_ok_def merged_shape_def int64_max_def)
  have call: "Merge_call (Merge_init 0 2) ?x = Inr \<lparr>shape = [2, 4], elems = [1, 2, 3, 4, 5, 6, 7, 8::int]\<rparr>"
    by (simp add: Merge_call_def Merge_init_def tf_reshape_def int64_max_def)
  from Merge_Reshape_round_trip [OF rank n dvd held fits] call rank n dvd held fits
  show ?thesis by auto
qed

text \<open>
  Claim C1 as stated covers every tensor. On a tensor of rank one the neighbour of the
  merge axis is the merge axis itself, the multiplication overwrites the division, and
  \<^verbatim>\<open>tf.reshape\<close> rejects the target \<open>[8]\<close> for four elements: the merge raises although
  \<open>2\<close> divides \<open>4\<close>.
\<close>

theorem Merge_rank_one_counterexample:
  "(2::nat) dvd shape \<lparr>shape = [4], elems = [1, 2, 3, 4::int]\<rparr>
       ! nat (0 mod int (length (shape \<lparr>shape = [4], elems = [1, 2, 3, 4::int]\<rparr>))) \<and>
   Merge_call (Merge_init 0 2) \<lparr>shape = [4], elems = [1, 2, 3, 4::int]\<rparr>
     = Inl InvalidArgumentError"
  by (simp add: Merge_call_def Merge_init_def tf_reshape_def int64_max_def)

text \<open>
  Claim C7, as amended. For every tensor that has a merge axis and at least one element,
  if the factor \<open>n\<close> does not divide the dimension along the merge axis then
  \<^verbatim>\<open>Merge(axis, n)\<close> raises and returns no tensor, truncated or padded:
  \<^verbatim>\<open>ZeroDivisionError\<close> for \<open>n = 0\<close>; otherwise \<^verbatim>\<open>tf.reshape\<close> rejects the floored shape,
  with \<^verbatim>\<open>ValueError\<close> when one of its sizes does not fit a signed 64-bit integer and with
  \<^verbatim>\<open>InvalidArgumentError\<close> when they all fit, because the floored shape never holds the
  number of elements of the input.
\<close>

theorem Merge_indivisible_fails:
  assumes rank: "shape x \<noteq> []" and nonempty: "0 < prod_list (shape x)"
    and ndvd: "\<not> n dvd shape x ! nat (axis mod int (length (shape x)))"
  shows "Merge_call (Merge_init axis n) x =
     Inl (if n = 0 then ZeroDivisionError
          else if list_all (\<lambda>d. d \<le> int64_max) (merged_shape axis n (shape x))
          then InvalidArgumentError
          else ValueError)"
proof (cases "n = 0")
  case True
  then show ?thesis using rank by (simp add: Merge_call_def Merge_init_def Let_def)
next
  case False
  then have n: "0 < n" by simp
  have "prod_list (merged_shape axis n (shape x)) \<noteq> prod_list (shape x)"
    using rank nonempty n ndvd by (rule indivisible_prod_list)
  from tf_reshape_mismatch [OF this] show ?thesis
    using n rank by (simp add: Merge_call_unfold Merge_init_def)
qed

text \<open>
  The example of the specification: three rows merged by two.
\<close>

theorem Merge_indivisible_fails_witness:
  "shape \<lparr>shape = [3, 2], elems = [1, 2, 3, 4, 5, 6::int]\<rparr> \<noteq> [] \<and>
   0 < prod_list (shape \<lparr>shape = [3, 2], elems = [1, 2, 3, 4, 5, 6::int]\<rparr>) \<and>
   \<not> (2::nat) dvd shape \<lparr>shape = [3, 2], elems = [1, 2, 3, 4, 5, 6::int]\<rparr>
       ! nat (0 mod int (length (shape \<lparr>shape = [3, 2], elems = [1, 2, 3, 4, 5, 6::int]\<rparr>))) \<and>
   Merge_call (Merge_init 0 2) \<lparr>shape = [3, 2], elems = [1, 2, 3, 4, 5, 6::int]\<rparr>
     = Inl InvalidArgumentError"
proof -
  let ?x = "\<lparr>shape = [3, 2], elems = [1, 2, 3, 4, 5, 6::int]\<rparr>"
  have rank: "shape ?x \<noteq> []" by simp
  have nonempty: "0 < prod_list (shape ?x)" by simp
  have ndvd: "\<not> (2::nat) dvd shape ?x ! nat (0 mod int (length (shape ?x)))" by simp
  from Merge_indivisible_fails [OF rank nonempty ndvd] rank nonempty ndvd
  show ?thesis by (simp add: merged_shape_def int64_max_def)
qed

text \<open>
  The same three rows merged by \<open>2^63\<close>: the floored shape is \<open>[0, 2^64]\<close>, a size that
  cannot be converted.
\<close>

lemma Merge_indivisible_huge_factor:
  "Merge_call (Merge_init 0 9223372036854775808) \<lparr>shape = [3, 2], elems = [1, 2, 3, 4, 5, 6::int]\<rparr>
     = Inl ValueError"
  by (simp add: Merge_call_def Merge_init_def tf_reshape_def int64_max_def)

text \<open>
  Claim C7 as stated covers every input. A tensor without elements passes: for the
  shape \<open>[3, 0]\<close> and the factor two the floored target \<open>[1, 0]\<close> holds no element either,
  and \<^verbatim>\<open>tf.reshape\<close> accepts it, so the three rows become one without an error.
\<close>

theorem Merge_empty_counterexample:
  "\<not> (2::nat) dvd shape \<lparr>shape = [3, 0], elems = ([]::int list)\<rparr>
       ! nat (0 mod int (length (shape \<lparr>shape = [3, 0], elems = ([]::int list)\<rparr>))) \<and>
   Merge_call (Merge_init 0 2) \<lparr>shape = [3, 0], elems = ([]::int list)\<rparr>
     = Inr \<lparr>shape = [1, 0], elems = []\<rparr>"
  by (simp add: Merge_call_def Merge_init_def tf_reshape_def int64_max_def)



section \<open>Properties of the normalization layers\<close>

text \<open>
  The methods \<^verbatim>\<open>build\<close> and \<^verbatim>\<open>call\<close> of the two classes are the same functions.
\<close>

lemma Normalization_same_call: "LayerNormalization_call = BatchNormalization_call"
  by (intro ext) (simp add: LayerNormalization_call_def BatchNormalization_call_def)

lemma Normalization_same_build: "LayerNormalization_build = BatchNormalization_build"
  by (intro ext) (simp add: LayerNormalization_build_def BatchNormalization_build_def)

lemma BatchNormalization_call_inference:
  "BatchNormalization_call tf self x (Some False) = (normalize_scale tf self x, self)"
  by (simp add: BatchNormalization_call_def)

lemma BatchNormalization_build_weights:
  assumes "shp \<noteq> []"
  shows "\<exists>self'. BatchNormalization_build add_weight self shp = Inr self' \<and>
     norm_mean self' \<noteq> None \<and> norm_stddev self' \<noteq> None \<and>
     norm_gain self' \<noteq> None \<and> norm_bias self' \<noteq> None"
  using assms by (simp add: BatchNormalization_build_def Let_def)

text \<open>
  Claim C4. A call with \<^verbatim>\<open>training=False\<close> returns the layer as it was, running mean and
  running standard deviation included, and a second such call on the same input returns
  the same output as the first. This holds for both classes and for whatever the
  TensorFlow operations compute.
\<close>

theorem Normalization_inference_frame:
  "fst (BatchNormalization_call tf (snd (BatchNormalization_call tf self x (Some False))) x (Some False))
     = fst (BatchNormalization_call tf self x (Some False)) \<and>
   snd (BatchNormalization_call tf self x (Some False)) = self \<and>
   snd (BatchNormalization_call tf (snd (BatchNormalization_call tf self x (Some False))) x (Some False))
     = self \<and>
   fst (LayerNormalization_call tf (snd (LayerNormalization_call tf self x (Some False))) x (Some False))
     = fst (LayerNormalization_call tf self x (Some False)) \<and>
   snd (LayerNormalization_call tf self x (Some False)) = self \<and>
   snd (LayerNormalization_call tf (snd (LayerNormalization_call tf self x (Some False))) x (Some False))
     = self"
  by (simp add: Normalization_same_call BatchNormalization_call_inference)

text \<open>
  An inference call that returns a value, on the real vectors.
\<close>

lemma BatchNormalization_call_inference_example:
  "BatchNormalization_call vec_math
     \<lparr>norm_axis = 0, norm_momentum = 99 / 100, norm_epsilon = 1 / 1000,
      norm_mean = Some [0], norm_stddev = Some [1], norm_gain = Some [1], norm_bias = Some [0]\<rparr>
     [1, 3] (Some False)
   = (Inr [1000 / 1001, 3000 / 1001],
      \<lparr>norm_axis = 0, norm_momentum = 99 / 100, norm_epsilon = 1 / 1000,
       norm_mean = Some [0], norm_stddev = Some [1], norm_gain = Some [1], norm_bias = Some [0]\<rparr>)"
  by (simp add: BatchNormalization_call_def normalize_scale_def bind_def tf_operand_def
      py_operand_def vec_math_def vec_broadcast_def)

lemma update_parameter_Some:
  "tensor_add tf (float_mul_tensor tf momentum r) (float_mul_tensor tf (1 - momentum) current) = Inr s
   \<Longrightarrow> update_parameter tf momentum (Some r) current = Inr (tf_stop_gradient tf s)"
  by (simp add: update_parameter_def bind_def py_operand_def)

lemma update_statistics_ok:
  assumes "tf_reduce_mean tf x (Some (norm_axis self)) True = Inr bm"
    and "tf_reduce_std tf x (Some (norm_axis self)) True = Inr bs"
    and "update_parameter tf (norm_momentum self) (norm_mean self) bm = Inr m"
    and "update_parameter tf (norm_momentum self) (norm_stddev self) bs = Inr s"
  shows "update_statistics tf self x = (Inr (), self\<lparr>norm_mean := Some m, norm_stddev := Some s\<rparr>)"
  using assms by (simp add: update_statistics_def)

text \<open>
  Claim C9, as amended. The parameter \<^verbatim>\<open>training\<close> defaults to \<^verbatim>\<open>True\<close>: a call that leaves it
  out is the call with \<^verbatim>\<open>training=True\<close>, and only the call with \<^verbatim>\<open>training=False\<close> is sure to
  leave the layer as it was. On a built layer (running mean \<open>mu\<close>, running standard
  deviation \<open>sigma\<close>) whose batch statistics \<open>bm\<close> and \<open>bs\<close> and moving averages can be
  computed, the default call stores \<^verbatim>\<open>stop_gradient(momentum * mu + (1 - momentum) * bm)\<close>
  as the running mean and the same expression of \<open>sigma\<close> and \<open>bs\<close> as the running standard
  deviation, whether or not the normalization after it raises.
\<close>

theorem Normalization_default_training_updates:
  "BatchNormalization_call tf self x None = BatchNormalization_call tf self x (Some True) \<and>
   LayerNormalization_call tf self x None = LayerNormalization_call tf self x (Some True) \<and>
   snd (BatchNormalization_call tf self x (Some False)) = self \<and>
   snd (LayerNormalization_call tf self x (Some False)) = self \<and>
   (tf_reduce_mean tf x (Some (norm_axis self)) True = Inr bm \<and>
    tf_reduce_std tf x (Some (norm_axis self)) True = Inr bs \<and>
    norm_mean self = Some mu \<and>
    norm_stddev self = Some sigma \<and>
    tensor_add tf (float_mul_tensor tf (norm_momentum self) mu)
      (float_mul_tensor tf (1 - norm_momentum self) bm) = Inr m \<and>
    tensor_add tf (float_mul_tensor tf (norm_momentum self) sigma)
      (float_mul_tensor tf (1 - norm_momentum self) bs) = Inr s
    \<longrightarrow>
    norm_mean (snd (BatchNormalization_call tf self x None)) = Some (tf_stop_gradient tf m) \<and>
    norm_stddev (snd (BatchNormalization_call tf self x None)) = Some (tf_stop_gradient tf s) \<and>
    norm_mean (snd (LayerNormalization_call tf self x None)) = Some (tf_stop_gradient tf m) \<and>
    norm_stddev (snd (LayerNormalization_call tf self x None)) = Some (tf_stop_gradient tf s))"
proof (intro conjI impI)
  show "BatchNormalization_call tf self x None = BatchNormalization_call tf self x (Some True)"
    by (simp add: BatchNormalization_call_def)
  show "LayerNormalization_call tf self x None = LayerNormalization_call tf self x (Some True)"
    by (simp add: LayerNormalization_call_def)
  show "snd (BatchNormalization_call tf self x (Some False)) = self"
    by (simp add: BatchNormalization_call_def)
  show "snd (LayerNormalization_call tf self x (Some False)) = self"
    by (simp add: LayerNormalization_call_def)
next
  assume hyps: "tf_reduce_mean tf x (Some (norm_axis self)) True = Inr bm \<and>
    tf_reduce_std tf x (Some (norm_axis self)) True = Inr bs \<and>
    norm_mean self = Some mu \<and>
    norm_stddev self = Some sigma \<and>
    tensor_add tf (float_mul_tensor tf (norm_momentum self) mu)
      (float_mul_tensor tf (1 - norm_momentum self) bm) = Inr m \<and>
    tensor_add tf (float_mul_tensor tf (norm_momentum self) sigma)
      (float_mul_tensor tf (1 - norm_momentum self) bs) = Inr s"
  have m': "update_parameter tf (norm_momentum self) (norm_mean self) bm = Inr (tf_stop_gradient tf m)"
    using hyps by (simp add: update_parameter_Some)
  have s': "update_parameter tf (norm_momentum self) (norm_stddev self) bs = Inr (tf_stop_gradient tf s)"
    using hyps by (simp add: update_parameter_Some)
  have upd: "update_statistics tf self x =
      (Inr (), self\<lparr>norm_mean := Some (tf_stop_gradient tf m), norm_stddev := Some (tf_stop_gradient tf s)\<rparr>)"
    using hyps m' s' by (intro update_statistics_ok) simp_all
  show "norm_mean (snd (BatchNormalization_call tf self x None)) = Some (tf_stop_gradient tf m)"
    by (simp add: BatchNormalization_call_def upd)
  show "norm_stddev (snd (BatchNormalization_call tf self x None)) = Some (tf_stop_gradient tf s)"
    by (simp add: BatchNormalization_call_def upd)
  show "norm_mean (snd (LayerNormalization_call tf self x None)) = Some (tf_stop_gradient tf m)"
    by (simp add: LayerNormalization_call_def upd)
  show "norm_stddev (snd (LayerNormalization_call tf self x None)) = Some (tf_stop_gradient tf s)"
    by (simp add: LayerNormalization_call_def upd)
qed

text \<open>
  A default call on the real vectors: the running mean moves from \<open>0\<close> to \<open>1/50\<close>.
\<close>

theorem Normalization_default_training_updates_witness:
  "tf_reduce_mean vec_math [1, 3] (Some 0) True = Inr [2] \<and>
   tf_reduce_std vec_math [1, 3] (Some 0) True = Inr [1] \<and>
   tensor_add vec_math (float_mul_tensor vec_math (99 / 100) [0])
     (float_mul_tensor vec_math (1 - 99 / 100) [2]) = Inr [1 / 50] \<and>
   tensor_add vec_math (float_mul_tensor vec_math (99 / 100) [1])
     (float_mul_tensor vec_math (1 - 99 / 100) [1]) = Inr [1] \<and>
   norm_mean (snd (BatchNormalization_call vec_math
     \<lparr>norm_axis = 0, norm_momentum = 99 / 100, norm_epsilon = 1 / 1000,
      norm_mean = Some [0], norm_stddev = Some [1], norm_gain = Some [1], norm_bias = Some [0]\<rparr>
     [1, 3] None)) = Some [1 / 50] \<and>
   norm_stddev (snd (BatchNormalization_call vec_math
     \<lparr>norm_axis = 0, norm_momentum = 99 / 100, norm_epsilon = 1 / 1000,
      norm_mean = Some [0], norm_stddev = Some [1], norm_gain = Some [1], norm_bias = Some [0]\<rparr>
     [1, 3] None)) = Some [1]"
proof -
  let ?self = "\<lparr>norm_axis = 0, norm_momentum = 99 / 100, norm_epsilon = 1 / 1000,
      norm_mean = Some [0::real], norm_stddev = Some [1::real], norm_gain = Some [1::real],
      norm_bias = Some [0::real]\<rparr>"
  have bm: "tf_reduce_mean vec_math [1, 3] (Some (norm_axis ?self)) True = Inr [2]"
    by (simp add: vec_math_def vec_reduce_def vec_mean_def)
  have bs: "tf_reduce_std vec_math [1, 3] (Some (norm_axis ?self)) True = Inr [1]"
    by (simp add: vec_math_def vec_reduce_def vec_std_def vec_mean_def)
  have mean: "norm_mean ?self = Some [0]" by simp
  have stddev: "norm_stddev ?self = Some [1]" by simp
  have m: "tensor_add vec_math (float_mul_tensor vec_math (norm_momentum ?self) [0])
      (float_mul_tensor vec_math (1 - norm_momentum ?self) [2]) = Inr [1 / 50]"
    by (simp add: vec_math_def vec_broadcast_def)
  have s: "tensor_add vec_math (float_mul_tensor vec_math (norm_momentum ?self) [1])
      (float_mul_tensor vec_math (1 - norm_momentum ?self) [1]) = Inr [1]"
    by (simp add: vec_math_def vec_broadcast_def)
  have id: "tf_stop_gradient vec_math = (\<lambda>t. t)" by (simp add: vec_math_def)
  note all = Normalization_default_training_updates
    [where tf = vec_math and self = ?self and x = "[1, 3]" and bm = "[2]" and bs = "[1]"
       and mu = "[0]" and sigma = "[1]" and m = "[1 / 50]" and s = "[1]"]
  note imp = conjunct2 [OF conjunct2 [OF conjunct2 [OF conjunct2 [OF all]]]]
  have hyps: "tf_reduce_mean vec_math [1, 3] (Some (norm_axis ?self)) True = Inr [2] \<and>
    tf_reduce_std vec_math [1, 3] (Some (norm_axis ?self)) True = Inr [1] \<and>
    norm_mean ?self = Some [0] \<and>
    norm_stddev ?self = Some [1] \<and>
    tensor_add vec_math (float_mul_tensor vec_math (norm_momentum ?self) [0])
      (float_mul_tensor vec_math (1 - norm_momentum ?self) [2]) = Inr [1 / 50] \<and>
    tensor_add vec_math (float_mul_tensor vec_math (norm_momentum ?self) [1])
      (float_mul_tensor vec_math (1 - norm_momentum ?self) [1]) = Inr [1]"
    using bm bs mean stddev m s by (intro conjI)
  note upd = mp [OF imp hyps]
  have "norm_mean (snd (BatchNormalization_call vec_math ?self [1, 3] None))
      = Some (tf_stop_gradient vec_math [1 / 50])"
    by (rule conjunct1 [OF upd])
  moreover have "norm_stddev (snd (BatchNormalization_call vec_math ?self [1, 3] None))
      = Some (tf_stop_gradient vec_math [1])"
    by (rule conjunct1 [OF conjunct2 [OF upd]])
  ultimately show ?thesis using bm bs m s by (simp add: id)
qed

text \<open>
  Claim C9 as stated covers every built layer. A layer constructed with \<open>axis = 1\<close> and
  built on the shape \<open>(2,)\<close> is built, its axis being taken modulo the rank by \<^verbatim>\<open>build\<close>;
  \<^verbatim>\<open>call\<close> passes the axis as it is, \<^verbatim>\<open>tf.math.reduce_mean\<close> rejects axis 1 of a tensor of
  rank one, and the default call raises with the running statistics as they were.
\<close>

theorem Normalization_default_call_counterexample:
  "BatchNormalization_init (Some 1) None None =
     Inr \<lparr>norm_axis = 1, norm_momentum = 99 / 100, norm_epsilon = 1 / 1000,
          norm_mean = None, norm_stddev = None, norm_gain = None,
          norm_bias = (None :: real list option)\<rparr> \<and>
   BatchNormalization_build zero_weight
     \<lparr>norm_axis = 1, norm_momentum = 99 / 100, norm_epsilon = 1 / 1000,
      norm_mean = None, norm_stddev = None, norm_gain = None, norm_bias = None\<rparr> [2] =
     Inr \<lparr>norm_axis = 1, norm_momentum = 99 / 100, norm_epsilon = 1 / 1000,
          norm_mean = Some [0], norm_stddev = Some [0], norm_gain = Some [0],
          norm_bias = Some [0]\<rparr> \<and>
   BatchNormalization_call vec_math
     \<lparr>norm_axis = 1, norm_momentum = 99 / 100, norm_epsilon = 1 / 1000,
      norm_mean = Some [0], norm_stddev = Some [0], norm_gain = Some [0], norm_bias = Some [0]\<rparr>
     [1, 3] None =
     (Inl InvalidArgumentError,
      \<lparr>norm_axis = 1, norm_momentum = 99 / 100, norm_epsilon = 1 / 1000,
       norm_mean = Some [0], norm_stddev = Some [0], norm_gain = Some [0],
       norm_bias = Some [0]\<rparr>)"
  by (simp add: BatchNormalization_init_def BatchNormalization_build_def
      BatchNormalization_call_def update_statistics_def bind_def py_super_def
      zero_weight_def vec_math_def vec_reduce_def Let_def)

lemma py_super_BatchNormalization:
  "py_super BatchNormalization BatchNormalization = Inr [Layer]"
  "py_super BatchNormalization LayerNormalization = Inl TypeError"
  by (simp_all add: py_super_def)

text \<open>
  Claim C5 says that \<^verbatim>\<open>LayerNormalization\<close> can be constructed and then behaves like
  \<^verbatim>\<open>BatchNormalization\<close>. Its constructor calls \<^verbatim>\<open>super(BatchNormalization, self)\<close> on an
  object that is not a \<^verbatim>\<open>BatchNormalization\<close>: for all arguments it raises \<^verbatim>\<open>TypeError\<close>,
  where the constructor of \<^verbatim>\<open>BatchNormalization\<close> returns a layer.
\<close>

theorem LayerNormalization_init_raises:
  "(LayerNormalization_init axis momentum epsilon :: error + 't normalization) = Inl TypeError \<and>
   (\<exists>self. (BatchNormalization_init axis momentum epsilon :: error + 't normalization) = Inr self)"
  by (simp add: LayerNormalization_init_def BatchNormalization_init_def bind_def
      py_super_BatchNormalization)

section \<open>Properties of the attention and embedding layers\<close>

lemma Attention_build_time_dim:
  "Attention_build add_weight self [t, d] = Inr self' \<Longrightarrow> att_time_dim self' = Some d"
  by (auto simp: Attention_build_def)

lemma Attention_call_TypeError: "Attention_call tm tf self inputs = Inl TypeError"
  by (simp add: Attention_call_def Let_def bind_def)

text \<open>
  Claim C2 says that \<^verbatim>\<open>Attention.call\<close> returns the probability-weighted sum of projected
  value vectors. The second statement of \<^verbatim>\<open>call\<close> assigns to an item of a \<^verbatim>\<open>range\<close>: for
  every layer and every input the call raises \<^verbatim>\<open>TypeError\<close>.
\<close>

theorem Attention_call_raises: "Attention_call tm tf self inputs = Inl TypeError"
  by (rule Attention_call_TypeError)

text \<open>
  Claim C3 compares the outputs of \<^verbatim>\<open>Attention.call\<close> at a position under changes of later
  positions. No input has an output: the call returns no tensor, so no mask, softmax or
  output row is ever computed.
\<close>

theorem Attention_call_no_output: "\<nexists>outputs. Attention_call tm tf self inputs = Inr outputs"
  by (simp add: Attention_call_TypeError)

lemma py_name_values:
  "py_name [(''inputs'', a), (''__x'', b), (''__y'', c), (''__diag'', d)] ''__values'' = Inl NameError"
  by (simp add: py_name_def)

text \<open>
  Claim C6 says that an \<^verbatim>\<open>Embedding\<close> with \<^verbatim>\<open>add_position=True\<close> returns the content embedding
  plus a positional term. With \<^verbatim>\<open>add_position=True\<close> the call returns no tensor for any
  layer state and input; on a built layer whose content embedding is computed it raises
  \<^verbatim>\<open>NameError\<close> at the read of \<^verbatim>\<open>__values\<close>.
\<close>

theorem Embedding_call_position_raises:
  "(\<nexists>outputs. Embedding_call tm tf (self\<lparr>emb_add_position := True\<rparr>) inputs = Inr outputs) \<and>
   Embedding_call tm tf
     (self\<lparr>emb_add_position := True, emb_time_dim := Some time_dim,
           emb_content_kernel := Some kernel\<rparr>) inputs
   = (case tf_matmul tf (tf_one_hot tf inputs (emb_input_dim self)) kernel of
        Inl e \<Rightarrow> Inl e
      | Inr y \<Rightarrow> Inl NameError)"
  by (auto simp: Embedding_call_def Let_def bind_def py_name_values tf_operand_def py_operand_def
      split: sum.splits option.splits)

end
